theory Spec2Isabelle
  imports Main
begin

section \<open>The fp-result library: \<open>Result\<close>, its \<open>Ok\<close> and \<open>Err\<close> variants\<close>

text \<open>
  The library is one abstract class \<open>Result<T, E extends ResultErr>\<close> with two private
  concrete subclasses, \<open>Ok\<close> and \<open>Err\<close>, reached through the static factories
  \<open>Result.ok\<close> and \<open>Result.err\<close> (file \<open>src/result.ts\<close>), and the abstract error base
  \<open>ResultErr extends Error\<close>.

  A \<open>Result\<close> is a JavaScript object: it has an identity, three fields written once by
  the constructor, and a class that selects the method bodies. The model keeps all of
  that. Values are JavaScript values, objects live in a store and are named by
  references, callbacks are functions that may change the world and may throw.
\<close>

subsection \<open>Values, objects and the store\<close>

type_synonym ref = nat

text \<open>
  The type parameters \<open>T\<close> and \<open>E\<close> are erased when the code runs, and the field
  \<open>_value : T | E\<close> is an untagged union, so one type of values serves for both. Equality
  of values is JavaScript's \<open>Object.is\<close>: primitives by content, objects and symbols by
  identity. Numbers are the integer-valued ones; the library never computes with them.
\<close>

datatype val =
    VUndefined
  | VNull
  | VBool bool
  | VNum int
  | VStr string
  | VSym nat
  | VRef ref

text \<open>The class of an instance: which of the two private subclasses \<open>new\<close> was applied to.\<close>

datatype cls = OkClass | ErrClass

text \<open>
  The fields \<open>_value\<close>, \<open>_isOk\<close> and \<open>_isErr\<close> of class \<open>Result\<close> (lines 9 to 11), and
  the class of the instance.
\<close>

record result_obj =
  cls :: cls
  value_f :: val
  isOk_f :: bool
  isErr_f :: bool

text \<open>
  An instance of a concrete subclass of \<open>ResultErr\<close>: the field \<open>message\<close> inherited from
  \<open>Error\<close> and the discriminant \<open>_tag\<close>.
\<close>

record error_obj =
  tag_f :: string
  message_f :: string

datatype obj = ResultObj result_obj | ErrorObj error_obj

text \<open>
  The world: the store of objects (a reference is an index into it, and \<open>new\<close> appends),
  and whatever else the program's own code can read and write.
\<close>

record 'u world =
  objs :: "obj list"
  user :: 'u

text \<open>What a call completes with: a returned value, or a thrown one.\<close>

datatype exn = Thrown val | TypeError

datatype 'a completion = Returns 'a | Raises exn

text \<open>A callback passed to the library: any code of the caller's.\<close>

type_synonym 'u fn = "val \<Rightarrow> 'u world \<Rightarrow> val completion \<times> 'u world"

definition lookup :: "'u world \<Rightarrow> ref \<Rightarrow> obj option" where
  "lookup w a = (if a < length (objs w) then Some (objs w ! a) else None)"

definition new_obj :: "obj \<Rightarrow> 'u world \<Rightarrow> ref \<times> 'u world" where
  "new_obj ob w = (length (objs w), w\<lparr>objs := objs w @ [ob]\<rparr>)"

text \<open>The \<open>Result\<close> instance a reference denotes, if it denotes one.\<close>

definition instance_at :: "'u world \<Rightarrow> ref \<Rightarrow> result_obj option" where
  "instance_at w a = (case lookup w a of Some (ResultObj r) \<Rightarrow> Some r | _ \<Rightarrow> None)"

subsection \<open>Constructors and factories\<close>

text \<open>
  \<open>protected constructor(value, isOk, isErr)\<close> (lines 20 to 24) assigns the three fields;
  the class is the one \<open>new\<close> was applied to.
\<close>

definition Result_constructor :: "cls \<Rightarrow> val \<Rightarrow> bool \<Rightarrow> bool \<Rightarrow> result_obj" where
  "Result_constructor c v isOk isErr = \<lparr>cls = c, value_f = v, isOk_f = isOk, isErr_f = isErr\<rparr>"

text \<open>\<open>Ok\<close>: \<open>constructor(value) { super(value, true, false) }\<close> (lines 122 to 124).\<close>

definition Ok_constructor :: "val \<Rightarrow> result_obj" where
  "Ok_constructor v = Result_constructor OkClass v True False"

text \<open>\<open>Err\<close>: \<open>constructor(value) { super(value, false, true) }\<close> (lines 152 to 154).\<close>

definition Err_constructor :: "val \<Rightarrow> result_obj" where
  "Err_constructor v = Result_constructor ErrClass v False True"

text \<open>\<open>static ok(value) { return new this.Ok(value) }\<close> (lines 187 to 189).\<close>

definition Result_ok :: "val \<Rightarrow> 'u world \<Rightarrow> val completion \<times> 'u world" where
  "Result_ok v w = (let (a, w') = new_obj (ResultObj (Ok_constructor v)) w in (Returns (VRef a), w'))"

text \<open>\<open>static err(value) { return new this.Err(value) }\<close> (lines 197 to 199).\<close>

definition Result_err :: "val \<Rightarrow> 'u world \<Rightarrow> val completion \<times> 'u world" where
  "Result_err v w = (let (a, w') = new_obj (ResultObj (Err_constructor v)) w in (Returns (VRef a), w'))"

text \<open>
  The two subclasses are private, and the library makes an instance only by \<open>new\<close> on
  one of them (in \<open>ok\<close>, \<open>err\<close> and \<open>Ok.map\<close>): the instances of the library are the
  built ones.
\<close>

definition built :: "result_obj \<Rightarrow> bool" where
  "built r = (r = Ok_constructor (value_f r) \<or> r = Err_constructor (value_f r))"

subsection \<open>Methods of the base class\<close>

text \<open>The getters \<open>isOk\<close>, \<open>isErr\<close> and \<open>value\<close> (lines 30 to 48) read the fields.\<close>

definition Result_isOk :: "result_obj \<Rightarrow> bool" where
  "Result_isOk this = isOk_f this"

definition Result_isErr :: "result_obj \<Rightarrow> bool" where
  "Result_isErr this = isErr_f this"

definition Result_value :: "result_obj \<Rightarrow> val" where
  "Result_value this = value_f this"

text \<open>\<open>getOrDefault(defaultValue) { return this.isOk ? this.value : defaultValue }\<close>.\<close>

definition Result_getOrDefault :: "result_obj \<Rightarrow> val \<Rightarrow> val" where
  "Result_getOrDefault this defaultValue =
     (if Result_isOk this then Result_value this else defaultValue)"

text \<open>\<open>getOrElse(onErr) { return this.isOk ? this.value : onErr(this.value) }\<close>.\<close>

definition Result_getOrElse :: "result_obj \<Rightarrow> 'u fn \<Rightarrow> 'u world \<Rightarrow> val completion \<times> 'u world" where
  "Result_getOrElse this onErr w =
     (if Result_isOk this then (Returns (Result_value this), w)
      else onErr (Result_value this) w)"

text \<open>
  \<open>toJSON() { return { value: this._value, isOk: this.isOk, isErr: this.isErr } }\<close>:
  the plain object it returns, as a record of its three properties.
\<close>

record json =
  value_j :: val
  isOk_j :: bool
  isErr_j :: bool

definition Result_toJSON :: "result_obj \<Rightarrow> json" where
  "Result_toJSON this =
     \<lparr>value_j = value_f this, isOk_j = Result_isOk this, isErr_j = Result_isErr this\<rparr>"

subsection \<open>String conversion by the host\<close>

text \<open>
  A template literal converts each substitution with the language's \<open>ToString\<close>. On the
  primitives it is fixed by the language, and on a symbol it throws a \<open>TypeError\<close>. The
  digits of a number and the conversion of an object (which runs the object's own
  \<open>toString\<close> or \<open>valueOf\<close>: the caller's code, or for a nested \<open>Result\<close> the method
  below once more) are the host's, and a parameter here.
\<close>

record 'u host =
  number_toString :: "int \<Rightarrow> string"
  object_toString :: "ref \<Rightarrow> 'u world \<Rightarrow> string completion \<times> 'u world"

fun ToString :: "'u host \<Rightarrow> val \<Rightarrow> 'u world \<Rightarrow> string completion \<times> 'u world" where
  "ToString H VUndefined w = (Returns ''undefined'', w)"
| "ToString H VNull w = (Returns ''null'', w)"
| "ToString H (VBool b) w = (Returns (if b then ''true'' else ''false''), w)"
| "ToString H (VNum n) w = (Returns (number_toString H n), w)"
| "ToString H (VStr s) w = (Returns s, w)"
| "ToString H (VSym k) w = (Raises TypeError, w)"
| "ToString H (VRef a) w = object_toString H a w"

text \<open>
  The property read \<open>v.message\<close>: a \<open>TypeError\<close> on \<open>null\<close> and \<open>undefined\<close>, the field
  of an error object, and \<open>undefined\<close> where there is no such property.
\<close>

fun get_message :: "'u world \<Rightarrow> val \<Rightarrow> val completion" where
  "get_message w VUndefined = Raises TypeError"
| "get_message w VNull = Raises TypeError"
| "get_message w (VRef a) =
     (case lookup w a of
        Some (ErrorObj e) \<Rightarrow> Returns (VStr (message_f e))
      | _ \<Rightarrow> Returns VUndefined)"
| "get_message w v = Returns VUndefined"

text \<open>
  A value of a type that extends \<open>ResultErr\<close>: a reference to an error object, whose
  \<open>message\<close> is a string held in the store.
\<close>

fun is_ResultErr :: "'u world \<Rightarrow> val \<Rightarrow> bool" where
  "is_ResultErr w (VRef a) = (case lookup w a of Some (ErrorObj e) \<Rightarrow> True | _ \<Rightarrow> False)"
| "is_ResultErr w v = False"

subsection \<open>Methods of class \<open>Ok\<close> (lines 121 to 149)\<close>

text \<open>\<open>map(fn) { return new Result.Ok(fn(this.value)) }\<close>.\<close>

definition Ok_map :: "result_obj \<Rightarrow> 'u fn \<Rightarrow> 'u world \<Rightarrow> val completion \<times> 'u world" where
  "Ok_map this fn w =
     (case fn (Result_value this) w of
        (Returns u, w1) \<Rightarrow>
          (let (a, w2) = new_obj (ResultObj (Ok_constructor u)) w1 in (Returns (VRef a), w2))
      | (Raises x, w1) \<Rightarrow> (Raises x, w1))"

text \<open>\<open>fold(ifOk, _ifErr) { return ifOk(this.value) }\<close>.\<close>

definition Ok_fold :: "result_obj \<Rightarrow> 'u fn \<Rightarrow> 'u fn \<Rightarrow> 'u world \<Rightarrow> val completion \<times> 'u world" where
  "Ok_fold this ifOk ifErr w = ifOk (Result_value this) w"

definition Ok_getOrNull :: "result_obj \<Rightarrow> val" where
  "Ok_getOrNull this = value_f this"

definition Ok_errOrNull :: "result_obj \<Rightarrow> val" where
  "Ok_errOrNull this = VNull"

definition Ok_getOrThrow :: "result_obj \<Rightarrow> val completion" where
  "Ok_getOrThrow this = Returns (value_f this)"

text \<open>\<open>toString()\<close> returns the template literal \<open>Ok(${this._value})\<close>.\<close>

definition Ok_toString :: "'u host \<Rightarrow> result_obj \<Rightarrow> 'u world \<Rightarrow> string completion \<times> 'u world" where
  "Ok_toString H this w =
     (case ToString H (value_f this) w of
        (Returns s, w1) \<Rightarrow> (Returns (''Ok('' @ s @ '')''), w1)
      | (Raises x, w1) \<Rightarrow> (Raises x, w1))"

subsection \<open>Methods of class \<open>Err\<close> (lines 151 to 179)\<close>

text \<open>
  \<open>map(fn) { return this as unknown as Result<U, E> }\<close>: the receiver itself, so the
  method needs the reference it was called on.
\<close>

definition Err_map :: "ref \<Rightarrow> result_obj \<Rightarrow> 'u fn \<Rightarrow> 'u world \<Rightarrow> val completion \<times> 'u world" where
  "Err_map self this fn w = (Returns (VRef self), w)"

text \<open>\<open>fold(_ifOk, ifErr) { return ifErr(this.value) }\<close>.\<close>

definition Err_fold :: "result_obj \<Rightarrow> 'u fn \<Rightarrow> 'u fn \<Rightarrow> 'u world \<Rightarrow> val completion \<times> 'u world" where
  "Err_fold this ifOk ifErr w = ifErr (Result_value this) w"

definition Err_getOrNull :: "result_obj \<Rightarrow> val" where
  "Err_getOrNull this = VNull"

definition Err_errOrNull :: "result_obj \<Rightarrow> val" where
  "Err_errOrNull this = value_f this"

text \<open>\<open>getOrThrow(): never { throw this._value }\<close>.\<close>

definition Err_getOrThrow :: "result_obj \<Rightarrow> val completion" where
  "Err_getOrThrow this = Raises (Thrown (value_f this))"

text \<open>\<open>toString()\<close> returns the template literal \<open>Err(${this._value.message})\<close>.\<close>

definition Err_toString :: "'u host \<Rightarrow> result_obj \<Rightarrow> 'u world \<Rightarrow> string completion \<times> 'u world" where
  "Err_toString H this w =
     (case get_message w (value_f this) of
        Returns m \<Rightarrow>
          (case ToString H m w of
             (Returns s, w1) \<Rightarrow> (Returns (''Err('' @ s @ '')''), w1)
           | (Raises x, w1) \<Rightarrow> (Raises x, w1))
      | Raises x \<Rightarrow> (Raises x, w))"

subsection \<open>Calls on a reference\<close>

text \<open>
  A call \<open>r.m(...)\<close> finds the instance \<open>r\<close> refers to and runs the body its class gives
  for \<open>m\<close>. A receiver that is not a \<open>Result\<close> does not type-check; the model answers
  such a call with a \<open>TypeError\<close>.
\<close>

definition isOk :: "ref \<Rightarrow> 'u world \<Rightarrow> val completion" where
  "isOk r w = (case instance_at w r of
                 None \<Rightarrow> Raises TypeError
               | Some this \<Rightarrow> Returns (VBool (Result_isOk this)))"

definition isErr :: "ref \<Rightarrow> 'u world \<Rightarrow> val completion" where
  "isErr r w = (case instance_at w r of
                  None \<Rightarrow> Raises TypeError
                | Some this \<Rightarrow> Returns (VBool (Result_isErr this)))"

text \<open>The getter \<open>value\<close>.\<close>

definition value_of :: "ref \<Rightarrow> 'u world \<Rightarrow> val completion" where
  "value_of r w = (case instance_at w r of
                     None \<Rightarrow> Raises TypeError
                   | Some this \<Rightarrow> Returns (Result_value this))"

definition getOrDefault :: "ref \<Rightarrow> val \<Rightarrow> 'u world \<Rightarrow> val completion" where
  "getOrDefault r d w = (case instance_at w r of
                           None \<Rightarrow> Raises TypeError
                         | Some this \<Rightarrow> Returns (Result_getOrDefault this d))"

definition getOrElse :: "ref \<Rightarrow> 'u fn \<Rightarrow> 'u world \<Rightarrow> val completion \<times> 'u world" where
  "getOrElse r onErr w = (case instance_at w r of
                            None \<Rightarrow> (Raises TypeError, w)
                          | Some this \<Rightarrow> Result_getOrElse this onErr w)"

definition toJSON :: "ref \<Rightarrow> 'u world \<Rightarrow> json completion" where
  "toJSON r w = (case instance_at w r of
                   None \<Rightarrow> Raises TypeError
                 | Some this \<Rightarrow> Returns (Result_toJSON this))"

definition map_r :: "ref \<Rightarrow> 'u fn \<Rightarrow> 'u world \<Rightarrow> val completion \<times> 'u world" where
  "map_r r fn w = (case instance_at w r of
                     None \<Rightarrow> (Raises TypeError, w)
                   | Some this \<Rightarrow>
                       (case cls this of
                          OkClass \<Rightarrow> Ok_map this fn w
                        | ErrClass \<Rightarrow> Err_map r this fn w))"

definition fold_r :: "ref \<Rightarrow> 'u fn \<Rightarrow> 'u fn \<Rightarrow> 'u world \<Rightarrow> val completion \<times> 'u world" where
  "fold_r r ifOk ifErr w = (case instance_at w r of
                              None \<Rightarrow> (Raises TypeError, w)
                            | Some this \<Rightarrow>
                                (case cls this of
                                   OkClass \<Rightarrow> Ok_fold this ifOk ifErr w
                                 | ErrClass \<Rightarrow> Err_fold this ifOk ifErr w))"

definition getOrNull :: "ref \<Rightarrow> 'u world \<Rightarrow> val completion" where
  "getOrNull r w = (case instance_at w r of
                      None \<Rightarrow> Raises TypeError
                    | Some this \<Rightarrow>
                        (case cls this of
                           OkClass \<Rightarrow> Returns (Ok_getOrNull this)
                         | ErrClass \<Rightarrow> Returns (Err_getOrNull this)))"

definition errOrNull :: "ref \<Rightarrow> 'u world \<Rightarrow> val completion" where
  "errOrNull r w = (case instance_at w r of
                      None \<Rightarrow> Raises TypeError
                    | Some this \<Rightarrow>
                        (case cls this of
                           OkClass \<Rightarrow> Returns (Ok_errOrNull this)
                         | ErrClass \<Rightarrow> Returns (Err_errOrNull this)))"

definition getOrThrow :: "ref \<Rightarrow> 'u world \<Rightarrow> val completion" where
  "getOrThrow r w = (case instance_at w r of
                       None \<Rightarrow> Raises TypeError
                     | Some this \<Rightarrow>
                         (case cls this of
                            OkClass \<Rightarrow> Ok_getOrThrow this
                          | ErrClass \<Rightarrow> Err_getOrThrow this))"

definition toString :: "'u host \<Rightarrow> ref \<Rightarrow> 'u world \<Rightarrow> string completion \<times> 'u world" where
  "toString H r w = (case instance_at w r of
                       None \<Rightarrow> (Raises TypeError, w)
                     | Some this \<Rightarrow>
                         (case cls this of
                            OkClass \<Rightarrow> Ok_toString H this w
                          | ErrClass \<Rightarrow> Err_toString H this w))"

subsection \<open>Callbacks and worlds used to state the properties\<close>

text \<open>A callback without effects: it returns \<open>f v\<close> and leaves the world alone.\<close>

definition pure_fn :: "(val \<Rightarrow> val) \<Rightarrow> 'u fn" where
  "pure_fn f v w = (Returns (f v), w)"

text \<open>
  A callback with a side effect: each call applies \<open>tick\<close> to the caller's own state and
  returns \<open>f v\<close>. With a number for the state and \<open>Suc\<close> for \<open>tick\<close> it is a call counter.
\<close>

definition counting :: "('u \<Rightarrow> 'u) \<Rightarrow> (val \<Rightarrow> val) \<Rightarrow> 'u fn" where
  "counting tick f v w = (Returns (f v), w\<lparr>user := tick (user w)\<rparr>)"

text \<open>
  The second world still holds every \<open>Result\<close> instance of the first, at the same
  reference and with the same class and fields.
\<close>

definition keeps_results :: "'u world \<Rightarrow> 'u world \<Rightarrow> bool" where
  "keeps_results w w' =
     list_all (\<lambda>a. instance_at w a = None \<or> instance_at w' a = instance_at w a)
       [0..<length (objs w)]"

text \<open>
  The objects of the repository's test: \<open>new MyError('failed')\<close>, then
  \<open>Result.ok(42)\<close> and \<open>Result.err(errObj)\<close>. The caller's state is a counter.
\<close>

definition MyError :: error_obj where
  "MyError = \<lparr>tag_f = ''MyError'', message_f = ''failed''\<rparr>"

definition world0 :: "nat world" where
  "world0 = \<lparr>objs = [ErrorObj MyError], user = 0\<rparr>"

definition world1 :: "nat world" where
  "world1 = snd (Result_ok (VNum 42) world0)"

definition world2 :: "nat world" where
  "world2 = snd (Result_err (VRef 0) world1)"

text \<open>
  An example host: decimal digits for a number (as JavaScript prints the integers below
  \<open>10^21\<close>) and \<open>[object Object]\<close> for an object.
\<close>

fun digits :: "nat \<Rightarrow> string" where
  "digits n = (if n < 10 then [char_of (48 + n)] else digits (n div 10) @ [char_of (48 + n mod 10)])"

definition host0 :: "nat host" where
  "host0 = \<lparr>number_toString = (\<lambda>n. if n < 0 then CHR ''-'' # digits (nat (- n)) else digits (nat n)),
            object_toString = (\<lambda>a w. (Returns ''[object Object]'', w))\<rparr>"

text \<open>Every \<open>Result\<close> instance of the store was built by a constructor.\<close>

definition all_built :: "'u world \<Rightarrow> bool" where
  "all_built w = list_all (\<lambda>ob. case ob of ResultObj r \<Rightarrow> built r | ErrorObj e \<Rightarrow> True) (objs w)"

text \<open>
  A callback that leaves every \<open>Result\<close> instance as it found it. The fields are
  \<open>private readonly\<close>, so code that type-checks cannot write them, and no code can
  free an object.
\<close>

definition respects_results :: "'u fn \<Rightarrow> bool" where
  "respects_results f = (\<forall>v w. keeps_results w (snd (f v w)))"

fun is_symbol :: "val \<Rightarrow> bool" where
  "is_symbol (VSym k) = True"
| "is_symbol v = False"

fun is_object :: "val \<Rightarrow> bool" where
  "is_object (VRef a) = True"
| "is_object v = False"

text \<open>The caller's function \<open>x => typeof x === 'number' ? x + 1 : undefined\<close>.\<close>

fun plus_one :: "val \<Rightarrow> val" where
  "plus_one (VNum n) = VNum (n + 1)"
| "plus_one v = VUndefined"

text \<open>The world after \<open>Result.ok(Symbol())\<close>, called in \<open>world0\<close>.\<close>

definition world_sym :: "nat world" where
  "world_sym = snd (Result_ok (VSym 0) world0)"

section \<open>Properties\<close>

subsection \<open>The store\<close>

lemma lookup_new [simp]: "lookup (snd (new_obj ob w)) (length (objs w)) = Some ob"
  by (simp add: lookup_def new_obj_def)

lemma lookup_old [simp]: "a < length (objs w) \<Longrightarrow> lookup (snd (new_obj ob w)) a = lookup w a"
  by (simp add: lookup_def new_obj_def nth_append)

lemma length_new_obj [simp]: "length (objs (snd (new_obj ob w))) = Suc (length (objs w))"
  by (simp add: new_obj_def)

lemma user_new_obj [simp]: "user (snd (new_obj ob w)) = user w"
  by (simp add: new_obj_def)

lemma instance_at_new [simp]:
  "instance_at (snd (new_obj (ResultObj r) w)) (length (objs w)) = Some r"
  by (simp add: instance_at_def)

lemma instance_at_live: "instance_at w a = Some r \<Longrightarrow> a < length (objs w)"
  by (auto simp: instance_at_def lookup_def split: if_splits option.splits obj.splits)

lemma instance_at_old [simp]:
  "a < length (objs w) \<Longrightarrow> instance_at (snd (new_obj ob w)) a = instance_at w a"
  by (simp add: instance_at_def)

subsection \<open>Constructors\<close>

lemma Ok_constructor_fields [simp]:
  "cls (Ok_constructor v) = OkClass" "value_f (Ok_constructor v) = v"
  "isOk_f (Ok_constructor v) = True" "isErr_f (Ok_constructor v) = False"
  by (simp_all add: Ok_constructor_def Result_constructor_def)

lemma Err_constructor_fields [simp]:
  "cls (Err_constructor v) = ErrClass" "value_f (Err_constructor v) = v"
  "isOk_f (Err_constructor v) = False" "isErr_f (Err_constructor v) = True"
  by (simp_all add: Err_constructor_def Result_constructor_def)

lemma built_Ok_constructor [simp]: "built (Ok_constructor v)"
  by (simp add: built_def)

lemma built_Err_constructor [simp]: "built (Err_constructor v)"
  by (simp add: built_def)

text \<open>In an instance that a constructor built, the two flags say what the class is.\<close>

lemma built_cases:
  "built this \<Longrightarrow>
     (cls this = OkClass \<and> isOk_f this \<and> \<not> isErr_f this) \<or>
     (cls this = ErrClass \<and> \<not> isOk_f this \<and> isErr_f this)"
  unfolding built_def Ok_constructor_def Err_constructor_def Result_constructor_def
  by (cases this) auto

text \<open>
  The instances of a program are built ones: the world starts without any, the factories
  and \<open>map\<close> add built ones, and nothing else adds or changes one.
\<close>

lemma all_built_instance:
  assumes "all_built w" and "instance_at w a = Some this"
  shows "built this"
proof -
  from assms(2) have "a < length (objs w)" by (rule instance_at_live)
  then have "objs w ! a \<in> set (objs w)" by simp
  moreover from assms(2) have "objs w ! a = ResultObj this"
    by (auto simp: instance_at_def lookup_def split: if_splits obj.splits)
  ultimately show ?thesis
    using assms(1) by (auto simp: all_built_def list_all_iff)
qed

lemma all_built_empty: "all_built \<lparr>objs = [], user = u\<rparr>"
  by (simp add: all_built_def)

lemma all_built_new:
  "all_built w \<Longrightarrow> built this \<Longrightarrow> all_built (snd (new_obj (ResultObj this) w))"
  by (simp add: all_built_def new_obj_def)

lemma all_built_Result_ok: "all_built w \<Longrightarrow> all_built (snd (Result_ok v w))"
  by (simp add: Result_ok_def all_built_def new_obj_def)

lemma all_built_Result_err: "all_built w \<Longrightarrow> all_built (snd (Result_err v w))"
  by (simp add: Result_err_def all_built_def new_obj_def)

lemma all_built_map_r:
  assumes "all_built w" and "\<And>v w0. all_built w0 \<Longrightarrow> all_built (snd (fn v w0))"
  shows "all_built (snd (map_r r fn w))"
proof (cases "instance_at w r")
  case None
  with assms(1) show ?thesis by (simp add: map_r_def)
next
  case (Some this)
  from assms have f: "all_built (snd (fn (Result_value this) w))" by simp
  have "all_built (snd (Ok_map this fn w))"
  proof (cases "fn (Result_value this) w")
    case (Pair c w1)
    with f have b1: "all_built w1" by simp
    then have "all_built (snd (new_obj (ResultObj (Ok_constructor u)) w1))" for u
      by (rule all_built_new) simp
    with Pair b1 show ?thesis
      by (cases c) (simp_all add: Ok_map_def new_obj_def)
  qed
  with Some assms(1) show ?thesis
    by (simp add: map_r_def Err_map_def split: cls.splits)
qed

lemma Result_ok_eq:
  "Result_ok v w =
     (Returns (VRef (length (objs w))), snd (new_obj (ResultObj (Ok_constructor v)) w))"
  by (simp add: Result_ok_def new_obj_def)

lemma Result_err_eq:
  "Result_err v w =
     (Returns (VRef (length (objs w))), snd (new_obj (ResultObj (Err_constructor v)) w))"
  by (simp add: Result_err_def new_obj_def)

lemmas call_defs =
  isOk_def isErr_def value_of_def getOrDefault_def getOrElse_def toJSON_def map_r_def fold_r_def
  getOrNull_def errOrNull_def getOrThrow_def toString_def

lemmas body_defs =
  Result_isOk_def Result_isErr_def Result_value_def Result_getOrDefault_def Result_getOrElse_def
  Result_toJSON_def Ok_map_def Ok_fold_def Ok_getOrNull_def Ok_errOrNull_def Ok_getOrThrow_def
  Ok_toString_def Err_map_def Err_fold_def Err_getOrNull_def Err_errOrNull_def Err_getOrThrow_def
  Err_toString_def

subsection \<open>The worlds of the examples\<close>

lemma world1_eq:
  "world1 = \<lparr>objs = [ErrorObj MyError, ResultObj (Ok_constructor (VNum 42))], user = 0\<rparr>"
  by (simp add: world1_def world0_def Result_ok_def new_obj_def)

lemma world2_eq:
  "world2 = \<lparr>objs = [ErrorObj MyError, ResultObj (Ok_constructor (VNum 42)),
                      ResultObj (Err_constructor (VRef 0))], user = 0\<rparr>"
  by (simp add: world2_def world1_eq Result_err_def new_obj_def)

lemma world_sym_eq:
  "world_sym = \<lparr>objs = [ErrorObj MyError, ResultObj (Ok_constructor (VSym 0))], user = 0\<rparr>"
  by (simp add: world_sym_def world0_def Result_ok_def new_obj_def)

lemma world2_instances:
  "instance_at world2 (Suc 0) = Some (Ok_constructor (VNum 42))"
  "instance_at world2 2 = Some (Err_constructor (VRef 0))"
  "instance_at world2 3 = None"
  by (simp_all add: world2_eq instance_at_def lookup_def)

lemma world2_error: "is_ResultErr world2 (VRef 0)"
  by (simp add: world2_eq lookup_def)

subsection \<open>Callbacks\<close>

lemma keeps_results_iff:
  "keeps_results w w' \<longleftrightarrow>
     (\<forall>a this. instance_at w a = Some this \<longrightarrow> instance_at w' a = Some this)"
proof
  assume k: "keeps_results w w'"
  show "\<forall>a this. instance_at w a = Some this \<longrightarrow> instance_at w' a = Some this"
  proof (intro allI impI)
    fix a this assume i: "instance_at w a = Some this"
    then have "a < length (objs w)" by (rule instance_at_live)
    with k have "instance_at w a = None \<or> instance_at w' a = instance_at w a"
      by (simp add: keeps_results_def list_all_iff)
    with i show "instance_at w' a = Some this" by simp
  qed
next
  assume "\<forall>a this. instance_at w a = Some this \<longrightarrow> instance_at w' a = Some this"
  then have "instance_at w a = None \<or> instance_at w' a = instance_at w a" for a
    by (cases "instance_at w a") simp_all
  then show "keeps_results w w'"
    by (simp add: keeps_results_def list_all_iff)
qed

lemma keeps_results_refl [simp]: "keeps_results w w"
  by (simp add: keeps_results_iff)

lemma keeps_results_trans: "keeps_results w w1 \<Longrightarrow> keeps_results w1 w2 \<Longrightarrow> keeps_results w w2"
  by (simp add: keeps_results_iff)

lemma keeps_results_new [simp]: "keeps_results w (snd (new_obj ob w))"
  unfolding keeps_results_iff
proof (intro allI impI)
  fix a this assume i: "instance_at w a = Some this"
  then have "a < length (objs w)" by (rule instance_at_live)
  then have "instance_at (snd (new_obj ob w)) a = instance_at w a" by (rule instance_at_old)
  with i show "instance_at (snd (new_obj ob w)) a = Some this" by simp
qed

lemma keeps_results_user [simp]: "keeps_results w (w\<lparr>user := x\<rparr>)"
  by (simp add: keeps_results_iff instance_at_def lookup_def)

lemma respects_results_pure_fn [simp]: "respects_results (pure_fn f)"
  by (simp add: respects_results_def pure_fn_def)

lemma respects_results_counting [simp]: "respects_results (counting tick f)"
  by (simp add: respects_results_def counting_def)

text \<open>A reference that \<open>new\<close> hands out names no instance of an earlier world.\<close>

lemma keeps_fresh:
  assumes "keeps_results w w1"
  shows "instance_at w (length (objs w1)) = None"
proof (cases "instance_at w (length (objs w1))")
  case None
  then show ?thesis .
next
  case (Some this)
  with assms have "instance_at w1 (length (objs w1)) = Some this"
    by (simp add: keeps_results_iff)
  then have "length (objs w1) < length (objs w1)" by (rule instance_at_live)
  then show ?thesis by simp
qed

lemma Ok_map_keeps:
  assumes "respects_results fn"
  shows "keeps_results w (snd (Ok_map this fn w))"
proof (cases "fn (Result_value this) w")
  case (Pair c w1)
  from assms have "keeps_results w (snd (fn (Result_value this) w))"
    by (simp add: respects_results_def)
  with Pair have k1: "keeps_results w w1" by simp
  show ?thesis
  proof (cases c)
    case (Returns u)
    have "keeps_results w1 (snd (new_obj (ResultObj (Ok_constructor u)) w1))" by simp
    with k1 have "keeps_results w (snd (new_obj (ResultObj (Ok_constructor u)) w1))"
      by (rule keeps_results_trans)
    with Pair Returns show ?thesis
      by (simp add: Ok_map_def new_obj_def)
  next
    case (Raises x)
    with Pair k1 show ?thesis by (simp add: Ok_map_def)
  qed
qed

lemma Ok_map_fresh:
  assumes "respects_results fn" and "Ok_map this fn w = (Returns (VRef r'), w')"
  shows "instance_at w r' = None \<and> (\<exists>u. instance_at w' r' = Some (Ok_constructor u))"
proof (cases "fn (Result_value this) w")
  case (Pair c w1)
  from assms(1) have "keeps_results w (snd (fn (Result_value this) w))"
    by (simp add: respects_results_def)
  with Pair have k1: "keeps_results w w1" by simp
  show ?thesis
  proof (cases c)
    case (Returns u)
    with Pair assms(2) have r': "r' = length (objs w1)"
      and w': "w' = snd (new_obj (ResultObj (Ok_constructor u)) w1)"
      by (simp_all add: Ok_map_def new_obj_def)
    from k1 have "instance_at w r' = None" unfolding r' by (rule keeps_fresh)
    moreover have "instance_at w' r' = Some (Ok_constructor u)"
      unfolding r' w' by (rule instance_at_new)
    ultimately show ?thesis by blast
  next
    case (Raises x)
    with Pair assms(2) show ?thesis by (simp add: Ok_map_def)
  qed
qed

lemma Ok_map_returns:
  assumes "fn (value_f this) w = (Returns u, w1)"
  shows "\<exists>a w'. Ok_map this fn w = (Returns (VRef a), w')"
  using assms by (simp add: Ok_map_def Result_value_def new_obj_def)

subsection \<open>String conversion\<close>

lemma ToString_primitive:
  assumes "\<not> is_symbol v" and "\<not> is_object v"
  shows "\<exists>s. ToString H v w = (Returns s, w)"
  using assms by (cases v) simp_all

lemma get_message_error:
  assumes "is_ResultErr w e"
  shows "\<exists>s. get_message w e = Returns (VStr s)"
  using assms by (cases e) (auto split: option.splits obj.splits)

lemma ToString_keeps:
  assumes "\<forall>a w0. keeps_results w0 (snd (object_toString H a w0))"
  shows "keeps_results w (snd (ToString H v w))"
  using assms by (cases v) simp_all

lemma toString_keeps:
  assumes "\<forall>a w0. keeps_results w0 (snd (object_toString H a w0))"
  shows "keeps_results w (snd (toString H r w))"
proof (cases "instance_at w r")
  case None
  then show ?thesis by (simp add: toString_def)
next
  case (Some this)
  have ok: "snd (Ok_toString H this w) = snd (ToString H (value_f this) w)"
    by (simp add: Ok_toString_def split: prod.splits completion.splits)
  have err: "keeps_results w (snd (Err_toString H this w))"
  proof (cases "get_message w (value_f this)")
    case (Returns m)
    then have "snd (Err_toString H this w) = snd (ToString H m w)"
      by (simp add: Err_toString_def split: prod.splits completion.splits)
    with ToString_keeps [OF assms] show ?thesis by simp
  next
    case (Raises x)
    then show ?thesis by (simp add: Err_toString_def)
  qed
  from Some ok err ToString_keeps [OF assms] show ?thesis
    by (simp add: toString_def split: cls.splits)
qed

subsection \<open>Which calls return\<close>

text \<open>
  On a \<open>Result\<close>, the factories, the getters, \<open>getOrDefault\<close>, \<open>getOrNull\<close>,
  \<open>errOrNull\<close> and \<open>toJSON\<close> return; \<open>getOrElse\<close>, \<open>map\<close> and \<open>fold\<close> return when
  the callback they would run returns on this payload in this world; \<open>getOrThrow\<close>
  returns the payload of an \<open>Ok\<close> and throws the payload of an \<open>Err\<close>; \<open>toString\<close> on
  an \<open>Err\<close> returns when the payload is an error object.
\<close>

lemma calls_return:
  assumes inst: "instance_at w r = Some this"
  shows "(\<exists>a w'. Result_ok v w = (Returns (VRef a), w')) \<and>
         (\<exists>a w'. Result_err v w = (Returns (VRef a), w')) \<and>
         (\<exists>x. isOk r w = Returns (VBool x)) \<and>
         (\<exists>x. isErr r w = Returns (VBool x)) \<and>
         (\<exists>x. value_of r w = Returns x) \<and>
         (\<exists>x. getOrDefault r d w = Returns x) \<and>
         (\<exists>x. getOrNull r w = Returns x) \<and>
         (\<exists>x. errOrNull r w = Returns x) \<and>
         (\<exists>j. toJSON r w = Returns j) \<and>
         ((\<exists>u w1. onErr (value_f this) w = (Returns u, w1)) \<longrightarrow>
            (\<exists>x w'. getOrElse r onErr w = (Returns x, w'))) \<and>
         ((\<exists>u w1. fn (value_f this) w = (Returns u, w1)) \<longrightarrow>
            (\<exists>a w'. map_r r fn w = (Returns (VRef a), w'))) \<and>
         ((\<exists>u w1. ifOk (value_f this) w = (Returns u, w1)) \<and>
          (\<exists>u w1. ifErr (value_f this) w = (Returns u, w1)) \<longrightarrow>
            (\<exists>x w'. fold_r r ifOk ifErr w = (Returns x, w'))) \<and>
         (cls this = OkClass \<longrightarrow> getOrThrow r w = Returns (value_f this)) \<and>
         (cls this = ErrClass \<longrightarrow> getOrThrow r w = Raises (Thrown (value_f this))) \<and>
         (cls this = ErrClass \<and> is_ResultErr w (value_f this) \<longrightarrow>
            (\<exists>s. toString H r w = (Returns s, w)))"
proof (intro conjI impI)
  show "\<exists>a w'. Result_ok v w = (Returns (VRef a), w')"
    by (simp add: Result_ok_eq)
  show "\<exists>a w'. Result_err v w = (Returns (VRef a), w')"
    by (simp add: Result_err_eq)
  show "\<exists>x. isOk r w = Returns (VBool x)"
    using inst by (simp add: isOk_def)
  show "\<exists>x. isErr r w = Returns (VBool x)"
    using inst by (simp add: isErr_def)
  show "\<exists>x. value_of r w = Returns x"
    using inst by (simp add: value_of_def)
  show "\<exists>x. getOrDefault r d w = Returns x"
    using inst by (simp add: getOrDefault_def)
  show "\<exists>x. getOrNull r w = Returns x"
    using inst by (simp add: getOrNull_def split: cls.splits)
  show "\<exists>x. errOrNull r w = Returns x"
    using inst by (simp add: errOrNull_def split: cls.splits)
  show "\<exists>j. toJSON r w = Returns j"
    using inst by (simp add: toJSON_def)
next
  assume "\<exists>u w1. onErr (value_f this) w = (Returns u, w1)"
  with inst show "\<exists>x w'. getOrElse r onErr w = (Returns x, w')"
    by (auto simp: getOrElse_def Result_getOrElse_def Result_value_def)
next
  assume "\<exists>u w1. fn (value_f this) w = (Returns u, w1)"
  then obtain u w1 where f: "fn (value_f this) w = (Returns u, w1)" by blast
  have "\<exists>a w'. Ok_map this fn w = (Returns (VRef a), w')"
    using f by (rule Ok_map_returns [where fn = fn and this = this])
  with inst show "\<exists>a w'. map_r r fn w = (Returns (VRef a), w')"
    by (simp add: map_r_def Err_map_def split: cls.splits)
next
  assume "(\<exists>u w1. ifOk (value_f this) w = (Returns u, w1)) \<and>
          (\<exists>u w1. ifErr (value_f this) w = (Returns u, w1))"
  with inst show "\<exists>x w'. fold_r r ifOk ifErr w = (Returns x, w')"
    by (auto simp: fold_r_def Ok_fold_def Err_fold_def Result_value_def split: cls.splits)
next
  assume "cls this = OkClass"
  with inst show "getOrThrow r w = Returns (value_f this)"
    by (simp add: getOrThrow_def Ok_getOrThrow_def)
next
  assume "cls this = ErrClass"
  with inst show "getOrThrow r w = Raises (Thrown (value_f this))"
    by (simp add: getOrThrow_def Err_getOrThrow_def)
next
  assume a: "cls this = ErrClass \<and> is_ResultErr w (value_f this)"
  then obtain m where "get_message w (value_f this) = Returns (VStr m)"
    using get_message_error by blast
  with a inst show "\<exists>s. toString H r w = (Returns s, w)"
    by (simp add: toString_def Err_toString_def)
qed

text \<open>
  \<open>toString\<close> on an \<open>Ok\<close> returns for a payload that is a primitive other than a symbol,
  and throws a \<open>TypeError\<close> for every symbol.
\<close>

lemma toString_Ok_primitive:
  assumes "instance_at w r = Some this" and "cls this = OkClass"
    and "\<not> is_symbol (value_f this)" and "\<not> is_object (value_f this)"
  shows "\<exists>s. toString H r w = (Returns s, w)"
proof -
  from ToString_primitive [OF assms(3,4)]
  obtain s where "ToString H (value_f this) w = (Returns s, w)" by blast
  with assms(1,2) show ?thesis
    by (simp add: toString_def Ok_toString_def)
qed

lemma toString_Ok_symbol:
  assumes "instance_at w r = Some this" and "cls this = OkClass" and "value_f this = VSym k"
  shows "toString H r w = (Raises TypeError, w)"
  using assms by (simp add: toString_def Ok_toString_def)

section \<open>The claims\<close>

text \<open>
  C1. For every error \<open>e\<close> (and indeed every value), \<open>Result.err(e)\<close> returns a reference
  to an instance whose \<open>isOk\<close> is false, \<open>isErr\<close> is true, \<open>value\<close> is \<open>e\<close>,
  \<open>getOrNull()\<close> is \<open>null\<close>, \<open>errOrNull()\<close> is \<open>e\<close>, and whose \<open>getOrThrow()\<close> throws
  \<open>e\<close> itself: the very value, so for an error object the same reference.
\<close>

theorem err_accessors:
  "\<exists>r w'. Result_err e w = (Returns (VRef r), w') \<and>
      isOk r w' = Returns (VBool False) \<and>
      isErr r w' = Returns (VBool True) \<and>
      value_of r w' = Returns e \<and>
      getOrNull r w' = Returns VNull \<and>
      errOrNull r w' = Returns e \<and>
      getOrThrow r w' = Raises (Thrown e)"
proof -
  let ?r = "length (objs w)"
  let ?w' = "snd (new_obj (ResultObj (Err_constructor e)) w)"
  have inst: "instance_at ?w' ?r = Some (Err_constructor e)"
    by simp
  show ?thesis
    apply (rule exI [of _ ?r], rule exI [of _ ?w'])
    using inst by (simp add: Result_err_eq call_defs body_defs)
qed

text \<open>The test's \<open>Result.err(errObj)\<close>, where \<open>errObj\<close> is an error object of the store.\<close>

theorem err_accessors_witness:
  "is_ResultErr world1 (VRef 0) \<and>
   (\<exists>r w'. Result_err (VRef 0) world1 = (Returns (VRef r), w') \<and>
      isOk r w' = Returns (VBool False) \<and>
      isErr r w' = Returns (VBool True) \<and>
      value_of r w' = Returns (VRef 0) \<and>
      getOrNull r w' = Returns VNull \<and>
      errOrNull r w' = Returns (VRef 0) \<and>
      getOrThrow r w' = Raises (Thrown (VRef 0)))"
  using err_accessors [of "VRef 0" world1]
  by (simp add: world1_eq lookup_def)

text \<open>
  C2. For every value \<open>v\<close>, \<open>Result.ok(v)\<close> returns a reference to an instance whose
  \<open>isOk\<close> is true, \<open>isErr\<close> is false, \<open>value\<close> is \<open>v\<close>, \<open>getOrNull()\<close> is \<open>v\<close>,
  \<open>errOrNull()\<close> is \<open>null\<close>, and whose \<open>getOrThrow()\<close> returns \<open>v\<close>.
\<close>

theorem ok_accessors:
  "\<exists>r w'. Result_ok v w = (Returns (VRef r), w') \<and>
      isOk r w' = Returns (VBool True) \<and>
      isErr r w' = Returns (VBool False) \<and>
      value_of r w' = Returns v \<and>
      getOrNull r w' = Returns v \<and>
      errOrNull r w' = Returns VNull \<and>
      getOrThrow r w' = Returns v"
proof -
  let ?r = "length (objs w)"
  let ?w' = "snd (new_obj (ResultObj (Ok_constructor v)) w)"
  have inst: "instance_at ?w' ?r = Some (Ok_constructor v)"
    by simp
  show ?thesis
    apply (rule exI [of _ ?r], rule exI [of _ ?w'])
    using inst by (simp add: Result_ok_eq call_defs body_defs)
qed

text \<open>The test's \<open>Result.ok(42)\<close>.\<close>

theorem ok_accessors_witness:
  "\<exists>r w'. Result_ok (VNum 42) world0 = (Returns (VRef r), w') \<and>
      isOk r w' = Returns (VBool True) \<and>
      isErr r w' = Returns (VBool False) \<and>
      value_of r w' = Returns (VNum 42) \<and>
      getOrNull r w' = Returns (VNum 42) \<and>
      errOrNull r w' = Returns VNull \<and>
      getOrThrow r w' = Returns (VNum 42)"
  using ok_accessors [of "VNum 42" world0] by simp

text \<open>
  C3. For a reference \<open>r\<close> to a \<open>Result\<close> and a callback \<open>fn\<close>: when \<open>r\<close> is an \<open>Ok\<close>,
  \<open>r.map(fn)\<close> runs \<open>fn\<close> on the payload once, in the world of the call, and returns a
  new \<open>Ok\<close> holding what \<open>fn\<close> returned (it throws what \<open>fn\<close> throws); a callback that
  counts its calls has counted one. When \<open>r\<close> is an \<open>Err\<close>, \<open>r.map(fn)\<close> returns the
  receiver and leaves the world as it was, whatever \<open>fn\<close> is, so \<open>fn\<close> did not run and
  \<open>errOrNull()\<close> of the outcome is the payload: \<open>Result.err(e).map(f).errOrNull() == e\<close>.
\<close>

theorem map_transforms_Ok_only:
  assumes "instance_at w r = Some this"
  shows "(cls this = OkClass \<longrightarrow>
            map_r r fn w =
              (case fn (value_f this) w of
                 (Returns u, w1) \<Rightarrow> (Returns (VRef (length (objs w1))),
                                      snd (new_obj (ResultObj (Ok_constructor u)) w1))
               | (Raises x, w1) \<Rightarrow> (Raises x, w1)) \<and>
            (\<exists>r' w'. map_r r (counting tick f) w = (Returns (VRef r'), w') \<and>
                     instance_at w' r' = Some (Ok_constructor (f (value_f this))) \<and>
                     getOrNull r' w' = Returns (f (value_f this)) \<and>
                     user w' = tick (user w))) \<and>
         (cls this = ErrClass \<longrightarrow>
            map_r r fn w = (Returns (VRef r), w) \<and>
            errOrNull r w = Returns (value_f this) \<and>
            user (snd (map_r r (counting tick f) w)) = user w) \<and>
         (\<exists>a w1. Result_err e w = (Returns (VRef a), w1) \<and>
                  map_r a fn w1 = (Returns (VRef a), w1) \<and>
                  errOrNull a w1 = Returns e)"
proof (intro conjI impI)
  assume ok: "cls this = OkClass"
  show "map_r r fn w =
              (case fn (value_f this) w of
                 (Returns u, w1) \<Rightarrow> (Returns (VRef (length (objs w1))),
                                      snd (new_obj (ResultObj (Ok_constructor u)) w1))
               | (Raises x, w1) \<Rightarrow> (Raises x, w1))"
    using assms ok
    by (simp add: map_r_def Ok_map_def Result_value_def new_obj_def
        split: prod.splits completion.splits)
  let ?w1 = "w\<lparr>user := tick (user w)\<rparr>"
  let ?r' = "length (objs ?w1)"
  let ?w' = "snd (new_obj (ResultObj (Ok_constructor (f (value_f this)))) ?w1)"
  have m: "map_r r (counting tick f) w = (Returns (VRef ?r'), ?w')"
    using assms ok
    by (simp add: map_r_def Ok_map_def Result_value_def new_obj_def counting_def)
  have i: "instance_at ?w' ?r' = Some (Ok_constructor (f (value_f this)))"
    by (rule instance_at_new)
  have g: "getOrNull ?r' ?w' = Returns (f (value_f this))"
    using i by (simp only: getOrNull_def Ok_getOrNull_def option.case cls.case Ok_constructor_fields)
  have u: "user ?w' = tick (user w)"
    by simp
  show "\<exists>r' w'. map_r r (counting tick f) w = (Returns (VRef r'), w') \<and>
                     instance_at w' r' = Some (Ok_constructor (f (value_f this))) \<and>
                     getOrNull r' w' = Returns (f (value_f this)) \<and>
                     user w' = tick (user w)"
    using m i g u by blast
next
  assume err: "cls this = ErrClass"
  show "map_r r fn w = (Returns (VRef r), w)"
    using assms err by (simp add: map_r_def Err_map_def)
  show "errOrNull r w = Returns (value_f this)"
    using assms err by (simp add: errOrNull_def Err_errOrNull_def)
  show "user (snd (map_r r (counting tick f) w)) = user w"
    using assms err by (simp add: map_r_def Err_map_def)
next
  let ?a = "length (objs w)"
  let ?w1 = "snd (new_obj (ResultObj (Err_constructor e)) w)"
  have i: "instance_at ?w1 ?a = Some (Err_constructor e)"
    by (rule instance_at_new)
  have "map_r ?a fn ?w1 = (Returns (VRef ?a), ?w1)"
    using i by (simp only: map_r_def Err_map_def option.case cls.case Err_constructor_fields)
  moreover have "errOrNull ?a ?w1 = Returns e"
    using i by (simp only: errOrNull_def Err_errOrNull_def option.case cls.case Err_constructor_fields)
  ultimately show "\<exists>a w1. Result_err e w = (Returns (VRef a), w1) \<and>
                  map_r a fn w1 = (Returns (VRef a), w1) \<and>
                  errOrNull a w1 = Returns e"
    unfolding Result_err_eq by blast
qed

text \<open>
  In the world of the test, \<open>okResult.map(x => x + 1)\<close> with a call counter gives a new
  \<open>Ok(43)\<close> at reference 3 and counts one call; \<open>errResult.map\<close> of the same callback
  gives \<open>errResult\<close> itself and the counter stays at 0.
\<close>

theorem map_transforms_Ok_only_witness:
  "instance_at world2 (Suc 0) = Some (Ok_constructor (VNum 42)) \<and>
   map_r (Suc 0) (counting Suc plus_one) world2 =
     (Returns (VRef 3),
      \<lparr>objs = objs world2 @ [ResultObj (Ok_constructor (VNum 43))], user = Suc 0\<rparr>) \<and>
   instance_at world2 2 = Some (Err_constructor (VRef 0)) \<and>
   map_r 2 (counting Suc plus_one) world2 = (Returns (VRef 2), world2) \<and>
   errOrNull 2 world2 = Returns (VRef 0) \<and>
   user (snd (map_r 2 (counting Suc plus_one) world2)) = 0"
  using map_transforms_Ok_only [where w = world2 and r = "Suc 0" and this = "Ok_constructor (VNum 42)"
      and fn = "counting Suc plus_one" and tick = Suc and f = plus_one]
    map_transforms_Ok_only [where w = world2 and r = 2 and this = "Err_constructor (VRef 0)"
      and fn = "counting Suc plus_one" and tick = Suc and f = plus_one]
  by (simp add: world2_instances counting_def new_obj_def) (simp add: world2_eq)

text \<open>
  C4. \<open>r.fold(ifOk, ifErr)\<close> is the call \<open>ifOk(payload)\<close> when \<open>r\<close> is an \<open>Ok\<close> and the
  call \<open>ifErr(payload)\<close> when \<open>r\<close> is an \<open>Err\<close>: the same outcome and the same effects
  on the world, and \<open>r\<close> is one or the other. With two callbacks that record their calls
  in the caller's state, only the matching one has recorded a call, and only one.
\<close>

theorem fold_runs_exactly_one:
  assumes "instance_at w r = Some this"
  shows "(cls this = OkClass \<or> cls this = ErrClass) \<and>
         (cls this = OkClass \<longrightarrow>
            fold_r r ifOk ifErr w = ifOk (value_f this) w \<and>
            fold_r r (counting t1 f1) (counting t2 f2) w =
              (Returns (f1 (value_f this)), w\<lparr>user := t1 (user w)\<rparr>)) \<and>
         (cls this = ErrClass \<longrightarrow>
            fold_r r ifOk ifErr w = ifErr (value_f this) w \<and>
            fold_r r (counting t1 f1) (counting t2 f2) w =
              (Returns (f2 (value_f this)), w\<lparr>user := t2 (user w)\<rparr>))"
  using assms
  by (cases "cls this")
    (simp_all add: fold_r_def Ok_fold_def Err_fold_def Result_value_def counting_def)

text \<open>
  In the world of the test, with \<open>ifOk\<close> adding 1 to the caller's counter and \<open>ifErr\<close>
  adding 10: folding \<open>okResult\<close> leaves the counter at 1, folding \<open>errResult\<close> at 10.
\<close>

theorem fold_runs_exactly_one_witness:
  "instance_at world2 (Suc 0) = Some (Ok_constructor (VNum 42)) \<and>
   fold_r (Suc 0) (counting (\<lambda>n. n + 1) plus_one) (counting (\<lambda>n. n + 10) (\<lambda>e. VNum (- 1))) world2 =
     (Returns (VNum 43), world2\<lparr>user := 1\<rparr>) \<and>
   instance_at world2 2 = Some (Err_constructor (VRef 0)) \<and>
   fold_r 2 (counting (\<lambda>n. n + 1) plus_one) (counting (\<lambda>n. n + 10) (\<lambda>e. VNum (- 1))) world2 =
     (Returns (VNum (- 1)), world2\<lparr>user := 10\<rparr>)"
  using fold_runs_exactly_one [where w = world2 and r = "Suc 0" and this = "Ok_constructor (VNum 42)"
      and ifOk = "pure_fn plus_one" and ifErr = "pure_fn plus_one"
      and ?t1.0 = "\<lambda>n. n + 1" and ?f1.0 = plus_one
      and ?t2.0 = "\<lambda>n. n + 10" and ?f2.0 = "\<lambda>e. VNum (- 1)"]
    fold_runs_exactly_one [where w = world2 and r = 2 and this = "Err_constructor (VRef 0)"
      and ifOk = "pure_fn plus_one" and ifErr = "pure_fn plus_one"
      and ?t1.0 = "\<lambda>n. n + 1" and ?f1.0 = plus_one
      and ?t2.0 = "\<lambda>n. n + 10" and ?f2.0 = "\<lambda>e. VNum (- 1)"]
  by (simp add: world2_instances) (simp add: world2_eq)

text \<open>
  C5, as the code has it. No operation changes or removes a \<open>Result\<close> instance: after
  \<open>ok\<close>, \<open>err\<close>, \<open>getOrElse\<close>, \<open>fold\<close>, \<open>map\<close> and \<open>toString\<close> every instance of the
  world before is still there with the same class and fields, provided the callbacks (and
  the objects' own string conversions) leave instances alone; the other operations return
  no world at all. \<open>map\<close> on an \<open>Ok\<close> returns a reference that named no instance before
  the call, so one distinct from the receiver, to a newly built \<open>Ok\<close>. \<open>map\<close> on an
  \<open>Err\<close> builds nothing: it returns the receiver itself, in an unchanged world.
\<close>

theorem map_new_on_Ok_receiver_on_Err:
  assumes inst: "instance_at w r = Some this"
    and fn: "respects_results fn" and ifOk: "respects_results ifOk"
    and ifErr: "respects_results ifErr" and onErr: "respects_results onErr"
    and host: "\<forall>a w0. keeps_results w0 (snd (object_toString H a w0))"
  shows "keeps_results w (snd (Result_ok v w)) \<and>
         keeps_results w (snd (Result_err v w)) \<and>
         keeps_results w (snd (getOrElse r onErr w)) \<and>
         keeps_results w (snd (fold_r r ifOk ifErr w)) \<and>
         keeps_results w (snd (map_r r fn w)) \<and>
         keeps_results w (snd (toString H r w)) \<and>
         (cls this = OkClass \<longrightarrow>
            (\<forall>r' w'. map_r r fn w = (Returns (VRef r'), w') \<longrightarrow>
               r' \<noteq> r \<and> instance_at w r' = None \<and>
               (\<exists>u. instance_at w' r' = Some (Ok_constructor u)))) \<and>
         (cls this = ErrClass \<longrightarrow> map_r r fn w = (Returns (VRef r), w))"
proof (intro conjI impI allI)
  show "keeps_results w (snd (Result_ok v w))"
    by (simp add: Result_ok_eq)
  show "keeps_results w (snd (Result_err v w))"
    by (simp add: Result_err_eq)
  show "keeps_results w (snd (getOrElse r onErr w))"
    using inst onErr by (simp add: getOrElse_def Result_getOrElse_def respects_results_def)
  show "keeps_results w (snd (fold_r r ifOk ifErr w))"
    using inst ifOk ifErr
    by (simp add: fold_r_def Ok_fold_def Err_fold_def respects_results_def split: cls.splits)
  show "keeps_results w (snd (map_r r fn w))"
    using inst Ok_map_keeps [OF fn] by (simp add: map_r_def Err_map_def split: cls.splits)
  show "keeps_results w (snd (toString H r w))"
    using host by (rule toString_keeps)
next
  fix r' w'
  assume ok: "cls this = OkClass" and m: "map_r r fn w = (Returns (VRef r'), w')"
  from inst ok m have "Ok_map this fn w = (Returns (VRef r'), w')"
    by (simp add: map_r_def)
  from Ok_map_fresh [OF fn this]
  have f: "instance_at w r' = None" and n: "\<exists>u. instance_at w' r' = Some (Ok_constructor u)"
    by simp_all
  from f inst show "r' \<noteq> r" by auto
  from f show "instance_at w r' = None" .
  from n show "\<exists>u. instance_at w' r' = Some (Ok_constructor u)" .
next
  assume "cls this = ErrClass"
  with inst show "map_r r fn w = (Returns (VRef r), w)"
    by (simp add: map_r_def Err_map_def)
qed

text \<open>
  In the world of the test: \<open>okResult.map(x => x + 1)\<close> returns reference 3, which named
  nothing before, and keeps the three objects; \<open>errResult.map(x => x + 1)\<close> returns
  reference 2, the receiver.
\<close>

theorem map_new_on_Ok_receiver_on_Err_witness:
  "instance_at world2 (Suc 0) = Some (Ok_constructor (VNum 42)) \<and>
   respects_results (pure_fn plus_one :: nat fn) \<and>
   (\<forall>a w0. keeps_results w0 (snd (object_toString host0 a w0))) \<and>
   map_r (Suc 0) (pure_fn plus_one) world2 =
     (Returns (VRef 3), snd (new_obj (ResultObj (Ok_constructor (VNum 43))) world2)) \<and>
   keeps_results world2 (snd (map_r (Suc 0) (pure_fn plus_one) world2)) \<and>
   instance_at world2 3 = None \<and>
   instance_at world2 2 = Some (Err_constructor (VRef 0)) \<and>
   map_r 2 (pure_fn plus_one) world2 = (Returns (VRef 2), world2)"
proof -
  have h: "\<forall>a w0. keeps_results w0 (snd (object_toString host0 a (w0 :: nat world)))"
    by (simp add: host0_def)
  have m: "map_r (Suc 0) (pure_fn plus_one) world2 =
     (Returns (VRef 3), snd (new_obj (ResultObj (Ok_constructor (VNum 43))) world2))"
    by (simp add: map_r_def world2_instances Ok_map_def Result_value_def pure_fn_def new_obj_def)
      (simp add: world2_eq)
  note ok = map_new_on_Ok_receiver_on_Err [where w = world2 and r = "Suc 0"
      and this = "Ok_constructor (VNum 42)" and fn = "pure_fn plus_one"
      and ifOk = "pure_fn plus_one" and ifErr = "pure_fn plus_one" and onErr = "pure_fn plus_one"
      and H = host0 and v = VNull, OF world2_instances(1) _ _ _ _ h]
  note err = map_new_on_Ok_receiver_on_Err [where w = world2 and r = 2
      and this = "Err_constructor (VRef 0)" and fn = "pure_fn plus_one"
      and ifOk = "pure_fn plus_one" and ifErr = "pure_fn plus_one" and onErr = "pure_fn plus_one"
      and H = host0 and v = VNull, OF world2_instances(2) _ _ _ _ h]
  from ok have k: "keeps_results world2 (snd (map_r (Suc 0) (pure_fn plus_one) world2))"
    and f: "instance_at world2 3 = None"
    using m by simp_all
  from err have e: "map_r 2 (pure_fn plus_one) world2 = (Returns (VRef 2), world2)"
    by simp
  from h m k f e show ?thesis
    by (simp add: world2_instances)
qed

text \<open>
  The claim as stated fails on an \<open>Err\<close>: \<open>errResult.map(() => 123)\<close> of the test returns
  reference 2, which is \<open>errResult\<close>, and the store has no new object.
\<close>

theorem map_Err_returns_receiver:
  "Result_err (VRef 0) world1 = (Returns (VRef 2), world2) \<and>
   map_r 2 (pure_fn (\<lambda>v. VNum 123)) world2 = (Returns (VRef 2), world2)"
  by (simp add: world2_eq world1_eq Result_err_def new_obj_def map_r_def Err_map_def
      instance_at_def lookup_def)

text \<open>
  C6. For a \<open>Result\<close> built by a constructor: on an \<open>Ok\<close>, \<open>getOrDefault(d)\<close> and
  \<open>getOrElse(onErr)\<close> return the payload, the world is as before whatever \<open>onErr\<close> is,
  and a counting \<open>onErr\<close> has counted nothing; on an \<open>Err\<close>, \<open>getOrDefault(d)\<close> returns
  \<open>d\<close> and \<open>getOrElse(onErr)\<close> is the call \<open>onErr(error)\<close>, which a counting \<open>onErr\<close>
  has counted once.
\<close>

theorem getOrDefault_getOrElse_spec:
  assumes "instance_at w r = Some this" and "built this"
  shows "(cls this = OkClass \<longrightarrow>
            getOrDefault r d w = Returns (value_f this) \<and>
            getOrElse r onErr w = (Returns (value_f this), w) \<and>
            user (snd (getOrElse r (counting tick f) w)) = user w) \<and>
         (cls this = ErrClass \<longrightarrow>
            getOrDefault r d w = Returns d \<and>
            getOrElse r onErr w = onErr (value_f this) w \<and>
            getOrElse r (counting tick f) w =
              (Returns (f (value_f this)), w\<lparr>user := tick (user w)\<rparr>))"
  using assms(1) built_cases [OF assms(2)]
  by (auto simp: getOrDefault_def getOrElse_def Result_getOrDefault_def Result_getOrElse_def
      Result_isOk_def Result_value_def counting_def)

theorem getOrDefault_getOrElse_spec_witness:
  "instance_at world2 (Suc 0) = Some (Ok_constructor (VNum 42)) \<and>
   built (Ok_constructor (VNum 42)) \<and>
   getOrDefault (Suc 0) (VNum 0) world2 = Returns (VNum 42) \<and>
   getOrElse (Suc 0) (counting Suc (\<lambda>e. VNum 0)) world2 = (Returns (VNum 42), world2) \<and>
   instance_at world2 2 = Some (Err_constructor (VRef 0)) \<and>
   built (Err_constructor (VRef 0)) \<and>
   getOrDefault 2 (VNum 0) world2 = Returns (VNum 0) \<and>
   getOrElse 2 (counting Suc (\<lambda>e. VNum 0)) world2 = (Returns (VNum 0), world2\<lparr>user := Suc 0\<rparr>)"
  using getOrDefault_getOrElse_spec [where w = world2 and r = "Suc 0"
      and this = "Ok_constructor (VNum 42)" and d = "VNum 0"
      and onErr = "counting Suc (\<lambda>e. VNum 0)" and tick = Suc and f = "\<lambda>e. VNum 0"]
    getOrDefault_getOrElse_spec [where w = world2 and r = 2
      and this = "Err_constructor (VRef 0)" and d = "VNum 0"
      and onErr = "counting Suc (\<lambda>e. VNum 0)" and tick = Suc and f = "\<lambda>e. VNum 0"]
  by (simp add: world2_instances) (simp add: world2_eq counting_def)

text \<open>
  C7. The claim is that \<open>getOrThrow\<close> on an \<open>Err\<close> is the only call that throws, every
  other operation being total, \<open>toString\<close> among them. The code does not keep it:
  \<open>Result.ok(Symbol()).toString()\<close> throws a \<open>TypeError\<close>. \<open>Ok.toString\<close> returns the
  template literal \<open>Ok(${this._value})\<close> (line 147), which converts the payload with
  \<open>ToString\<close>, and that refuses a symbol, while the docstring of \<open>toString\<close> (lines 115
  to 119) announces a string.
\<close>

theorem toString_raises_on_symbol:
  "Result_ok (VSym 0) world0 = (Returns (VRef 1), world_sym) \<and>
   isOk 1 world_sym = Returns (VBool True) \<and>
   toString host0 1 world_sym = (Raises TypeError, world_sym)"
  by (simp add: world_sym_eq world0_def Result_ok_def new_obj_def toString_def Ok_toString_def
      isOk_def Result_isOk_def instance_at_def lookup_def)

text \<open>
  C8. For a \<open>Result\<close> built by a constructor, each read-only accessor is a \<open>fold\<close> with
  two effect-free functions (and \<open>getOrElse(f)\<close> is the \<open>fold\<close> of the identity and
  \<open>f\<close>): the \<open>fold\<close> returns what the accessor returns and leaves the world as it was.
\<close>

theorem fold_universal:
  assumes "instance_at w r = Some this" and "built this"
  shows "fold_r r (pure_fn (\<lambda>v. v)) (pure_fn (\<lambda>_. VNull)) w = (getOrNull r w, w) \<and>
         fold_r r (pure_fn (\<lambda>_. VNull)) (pure_fn (\<lambda>e. e)) w = (errOrNull r w, w) \<and>
         fold_r r (pure_fn (\<lambda>v. v)) (pure_fn (\<lambda>_. d)) w = (getOrDefault r d w, w) \<and>
         fold_r r (pure_fn (\<lambda>v. v)) f w = getOrElse r f w \<and>
         fold_r r (pure_fn (\<lambda>_. VBool True)) (pure_fn (\<lambda>_. VBool False)) w = (isOk r w, w) \<and>
         fold_r r (pure_fn (\<lambda>_. VBool False)) (pure_fn (\<lambda>_. VBool True)) w = (isErr r w, w)"
  using assms(1) built_cases [OF assms(2)]
  by (auto simp: call_defs body_defs pure_fn_def)

theorem fold_universal_witness:
  "instance_at world2 (Suc 0) = Some (Ok_constructor (VNum 42)) \<and>
   built (Ok_constructor (VNum 42)) \<and>
   fold_r (Suc 0) (pure_fn (\<lambda>v. v)) (pure_fn (\<lambda>_. VNull)) world2 = (Returns (VNum 42), world2) \<and>
   getOrNull (Suc 0) world2 = Returns (VNum 42) \<and>
   fold_r (Suc 0) (pure_fn (\<lambda>_. VBool True)) (pure_fn (\<lambda>_. VBool False)) world2 =
     (isOk (Suc 0) world2, world2) \<and>
   instance_at world2 2 = Some (Err_constructor (VRef 0)) \<and>
   built (Err_constructor (VRef 0)) \<and>
   fold_r 2 (pure_fn (\<lambda>_. VNull)) (pure_fn (\<lambda>e. e)) world2 = (Returns (VRef 0), world2) \<and>
   errOrNull 2 world2 = Returns (VRef 0) \<and>
   fold_r 2 (pure_fn (\<lambda>v. v)) (pure_fn (\<lambda>_. VNum 0)) world2 =
     (getOrDefault 2 (VNum 0) world2, world2)"
proof -
  note ok = fold_universal [where w = world2 and r = "Suc 0" and this = "Ok_constructor (VNum 42)"
      and d = "VNum 0" and f = "pure_fn plus_one", OF world2_instances(1) built_Ok_constructor]
  note err = fold_universal [where w = world2 and r = 2 and this = "Err_constructor (VRef 0)"
      and d = "VNum 0" and f = "pure_fn plus_one", OF world2_instances(2) built_Err_constructor]
  have g: "getOrNull (Suc 0) world2 = Returns (VNum 42)"
    by (simp add: getOrNull_def world2_instances Ok_getOrNull_def)
  have e: "errOrNull 2 world2 = Returns (VRef 0)"
    by (simp add: errOrNull_def world2_instances Err_errOrNull_def)
  from ok err g e show ?thesis
    by (simp add: world2_instances)
qed

text \<open>
  C9. For a \<open>Result\<close> built by a constructor, \<open>toJSON()\<close> returns the record of the raw
  payload and the two flags, and the flags are those \<open>isOk\<close> and \<open>isErr\<close> return: true
  and false on an \<open>Ok\<close>, false and true on an \<open>Err\<close>. So \<open>Result.ok(42).toJSON()\<close> is
  \<open>{ value: 42, isOk: true, isErr: false }\<close> and \<open>Result.err(e).toJSON()\<close> is
  \<open>{ value: e, isOk: false, isErr: true }\<close>.
\<close>

theorem toJSON_spec:
  "(instance_at w r = Some this \<and> built this \<longrightarrow>
      toJSON r w = Returns \<lparr>value_j = value_f this,
                            isOk_j = (cls this = OkClass), isErr_j = (cls this = ErrClass)\<rparr> \<and>
      isOk r w = Returns (VBool (cls this = OkClass)) \<and>
      isErr r w = Returns (VBool (cls this = ErrClass))) \<and>
   (\<exists>r' w'. Result_ok (VNum 42) w = (Returns (VRef r'), w') \<and>
      toJSON r' w' = Returns \<lparr>value_j = VNum 42, isOk_j = True, isErr_j = False\<rparr>) \<and>
   (\<exists>r' w'. Result_err e w = (Returns (VRef r'), w') \<and>
      toJSON r' w' = Returns \<lparr>value_j = e, isOk_j = False, isErr_j = True\<rparr>)"
proof (intro conjI impI)
  assume a: "instance_at w r = Some this \<and> built this"
  then have i: "instance_at w r = Some this" and b: "built this" by simp_all
  show "toJSON r w = Returns \<lparr>value_j = value_f this,
                            isOk_j = (cls this = OkClass), isErr_j = (cls this = ErrClass)\<rparr>"
    using i built_cases [OF b]
    by (auto simp: toJSON_def Result_toJSON_def Result_isOk_def Result_isErr_def)
  show "isOk r w = Returns (VBool (cls this = OkClass))"
    using i built_cases [OF b] by (auto simp: isOk_def Result_isOk_def)
  show "isErr r w = Returns (VBool (cls this = ErrClass))"
    using i built_cases [OF b] by (auto simp: isErr_def Result_isErr_def)
next
  show "\<exists>r' w'. Result_ok (VNum 42) w = (Returns (VRef r'), w') \<and>
      toJSON r' w' = Returns \<lparr>value_j = VNum 42, isOk_j = True, isErr_j = False\<rparr>"
    by (simp add: Result_ok_eq toJSON_def Result_toJSON_def Result_isOk_def Result_isErr_def)
  show "\<exists>r' w'. Result_err e w = (Returns (VRef r'), w') \<and>
      toJSON r' w' = Returns \<lparr>value_j = e, isOk_j = False, isErr_j = True\<rparr>"
    by (simp add: Result_err_eq toJSON_def Result_toJSON_def Result_isOk_def Result_isErr_def)
qed

text \<open>The test's \<open>okResult.toJSON()\<close> and \<open>errResult.toJSON()\<close>.\<close>

theorem toJSON_spec_witness:
  "instance_at world2 (Suc 0) = Some (Ok_constructor (VNum 42)) \<and>
   built (Ok_constructor (VNum 42)) \<and>
   toJSON (Suc 0) world2 = Returns \<lparr>value_j = VNum 42, isOk_j = True, isErr_j = False\<rparr> \<and>
   instance_at world2 2 = Some (Err_constructor (VRef 0)) \<and>
   built (Err_constructor (VRef 0)) \<and>
   toJSON 2 world2 = Returns \<lparr>value_j = VRef 0, isOk_j = False, isErr_j = True\<rparr>"
  using toJSON_spec [where w = world2 and r = "Suc 0" and this = "Ok_constructor (VNum 42)"
      and e = VNull]
    toJSON_spec [where w = world2 and r = 2 and this = "Err_constructor (VRef 0)" and e = VNull]
  by (simp add: world2_instances)

text \<open>
  C10. \<open>Result.ok(null)\<close> is an \<open>Ok\<close> (\<open>isOk\<close> is true) whose \<open>getOrNull()\<close> returns
  \<open>null\<close>, which is what \<open>getOrNull()\<close> returns on every \<open>Err\<close>: the two calls return
  the same value, so \<open>getOrNull\<close> alone does not tell \<open>Ok(null)\<close> from an \<open>Err\<close>.
\<close>

theorem getOrNull_ambiguous:
  "\<exists>r1 w1 r2 w2.
      Result_ok VNull w = (Returns (VRef r1), w1) \<and>
      Result_err e w1 = (Returns (VRef r2), w2) \<and>
      isOk r1 w2 = Returns (VBool True) \<and>
      isOk r2 w2 = Returns (VBool False) \<and>
      getOrNull r1 w2 = Returns VNull \<and>
      getOrNull r2 w2 = getOrNull r1 w2"
proof -
  let ?r1 = "length (objs w)"
  let ?w1 = "snd (new_obj (ResultObj (Ok_constructor VNull)) w)"
  let ?r2 = "length (objs ?w1)"
  let ?w2 = "snd (new_obj (ResultObj (Err_constructor e)) ?w1)"
  have i2: "instance_at ?w2 ?r2 = Some (Err_constructor e)"
    by (rule instance_at_new)
  have "instance_at ?w2 ?r1 = instance_at ?w1 ?r1"
    by (rule instance_at_old) simp
  then have i1: "instance_at ?w2 ?r1 = Some (Ok_constructor VNull)"
    by simp
  have a: "isOk ?r1 ?w2 = Returns (VBool True)" "getOrNull ?r1 ?w2 = Returns VNull"
    using i1 by (simp_all add: isOk_def getOrNull_def body_defs)
  have b: "isOk ?r2 ?w2 = Returns (VBool False)" "getOrNull ?r2 ?w2 = Returns VNull"
    using i2
    by (simp_all only: isOk_def getOrNull_def body_defs option.case cls.case Err_constructor_fields)
  show ?thesis
    apply (rule exI [of _ ?r1], rule exI [of _ ?w1], rule exI [of _ ?r2], rule exI [of _ ?w2])
    using a b by (simp add: Result_ok_eq Result_err_eq)
qed

text \<open>\<open>Result.ok(null)\<close> and then \<open>Result.err(errObj)\<close>, first thing in the test's world.\<close>

theorem getOrNull_ambiguous_witness:
  "\<exists>r1 w1 r2 w2.
      Result_ok VNull world0 = (Returns (VRef r1), w1) \<and>
      Result_err (VRef 0) w1 = (Returns (VRef r2), w2) \<and>
      isOk r1 w2 = Returns (VBool True) \<and>
      isOk r2 w2 = Returns (VBool False) \<and>
      getOrNull r1 w2 = Returns VNull \<and>
      getOrNull r2 w2 = getOrNull r1 w2"
  using getOrNull_ambiguous [of world0 "VRef 0"] by simp

end
